theory Spec2Isabelle
  imports Main "HOL-Library.Word"
begin

section \<open>Strings: the Qt conversions the recorder uses\<close>

text \<open>
  \<open>QString::number\<close> (decimal) and \<open>QString::toInt\<close> / \<open>toLongLong\<close>. The conversions
  are modelled on unbounded integers: the 32 and 64 bit limits of the C++ types are only
  reached by counters beyond \<open>2^31\<close>. \<open>toInt\<close> gives 0 when the text is not a number,
  as Qt does. Surrounding white space is not modelled.
\<close>

definition digit_char :: "nat \<Rightarrow> char" where
  "digit_char d = ''0123456789'' ! d"

definition digit_val :: "char \<Rightarrow> nat option" where
  "digit_val c =
     map_of [(CHR ''0'', 0), (CHR ''1'', 1), (CHR ''2'', 2), (CHR ''3'', 3), (CHR ''4'', 4),
             (CHR ''5'', 5), (CHR ''6'', 6), (CHR ''7'', 7), (CHR ''8'', 8), (CHR ''9'', 9)] c"

fun digits :: "nat \<Rightarrow> string" where
  "digits n = (if n < 10 then [digit_char n] else digits (n div 10) @ [digit_char (n mod 10)])"

declare digits.simps [simp del]

definition number :: "int \<Rightarrow> string" where
  "number i = (if i < 0 then CHR ''-'' # digits (nat (- i)) else digits (nat i))"

fun parse_acc :: "nat \<Rightarrow> string \<Rightarrow> nat option" where
  "parse_acc a [] = Some a"
| "parse_acc a (c # cs) =
     (case digit_val c of None \<Rightarrow> None | Some d \<Rightarrow> parse_acc (10 * a + d) cs)"

definition parse_unsigned :: "string \<Rightarrow> int" where
  "parse_unsigned s =
     (if s = [] then 0 else case parse_acc 0 s of None \<Rightarrow> 0 | Some v \<Rightarrow> int v)"

definition toInt :: "string \<Rightarrow> int" where
  "toInt s =
     (case s of
        [] \<Rightarrow> 0
      | c # cs \<Rightarrow>
          if c = CHR ''-'' then - parse_unsigned cs
          else if c = CHR ''+'' then parse_unsigned cs
          else parse_unsigned s)"

text \<open>\<open>QString::split (sep)\<close> for a one-character separator, empty parts kept.\<close>

fun split :: "char \<Rightarrow> string \<Rightarrow> string list" where
  "split sep [] = [[]]"
| "split sep (c # cs) =
     (if c = sep then [] # split sep cs
      else case split sep cs of
             [] \<Rightarrow> [[c]]
           | p # ps \<Rightarrow> (c # p) # ps)"

text \<open>\<open>QString::toLower\<close> on the ASCII letters, for the case-insensitive name filter.\<close>

definition lower_char :: "char \<Rightarrow> char" where
  "lower_char c =
     (case map_of (zip ''ABCDEFGHIJKLMNOPQRSTUVWXYZ'' ''abcdefghijklmnopqrstuvwxyz'') c of
        None \<Rightarrow> c
      | Some l \<Rightarrow> l)"

definition ends_with :: "string \<Rightarrow> string \<Rightarrow> bool" where
  "ends_with suffix s =
     (length suffix \<le> length s \<and> drop (length s - length suffix) s = suffix)"

section \<open>The disk\<close>

text \<open>
  Files are kept by absolute path. A WAV file holds the channel count given to the wave
  stream, the samples written so far and whether the stream was finalised; project files
  are text. \<open>can_open\<close> says for which paths opening for writing succeeds.
\<close>

datatype content =
    WaveFile "16 word" "16 word list" bool
  | TextFile string
  | RawFile nat

record disk =
  files :: "(string \<times> content) list"
  dirs :: "string list"
  can_open :: "string \<Rightarrow> bool"

definition path_exists :: "disk \<Rightarrow> string \<Rightarrow> bool" where
  "path_exists dk p = (p \<in> fst ` set (files dk) \<or> p \<in> set (dirs dk))"

definition isDir :: "disk \<Rightarrow> string \<Rightarrow> bool" where
  "isDir dk p = (p \<in> set (dirs dk))"

text \<open>\<open>QDir::absoluteFilePath\<close> of a relative name under a clean absolute directory.\<close>

definition absoluteFilePath :: "string \<Rightarrow> string \<Rightarrow> string" where
  "absoluteFilePath d n = d @ ''/'' @ n"

fun update_file :: "string \<Rightarrow> (content \<Rightarrow> content) \<Rightarrow> (string \<times> content) list \<Rightarrow> (string \<times> content) list" where
  "update_file p f [] = []"
| "update_file p f ((q, x) # fs) =
     (if q = p then (q, f x) # fs else (q, x) # update_file p f fs)"

fun write_file :: "string \<Rightarrow> content \<Rightarrow> (string \<times> content) list \<Rightarrow> (string \<times> content) list" where
  "write_file p x [] = [(p, x)]"
| "write_file p x ((q, y) # fs) =
     (if q = p then (q, x) # fs else (q, y) # write_file p x fs)"

definition append_samples :: "16 word list \<Rightarrow> content \<Rightarrow> content" where
  "append_samples xs f =
     (case f of WaveFile n ys fin \<Rightarrow> WaveFile n (ys @ xs) fin | _ \<Rightarrow> f)"

definition finalise :: "content \<Rightarrow> content" where
  "finalise f = (case f of WaveFile n ys fin \<Rightarrow> WaveFile n ys True | _ \<Rightarrow> f)"

section \<open>CJamClient\<close>

text \<open>
  The faults of the C++ code are values: dereferencing a null pointer, reading a vector or
  list outside its range, dividing by zero, and the exceptions the code throws.
\<close>

datatype error =
    NullPointer
  | IndexOutOfRange
  | DivisionByZero
  | CouldNotWrite string
  | NotADirectory string
  | WillNotOverwrite string

record CHostAddress =
  InetAddr :: string
  iPort :: "16 word"

record CJamClient =
  startFrame :: int
  numChannels :: "16 word"
  name :: string
  address :: CHostAddress
  filename :: string
  frameCount :: int

text \<open>
  The loop of the constructor that looks for a file name not yet taken:
  \<^verbatim>\<open>while (recordBaseDir.exists(fileName + affix + ".wav"))
    affix = affix.length() == 0 ? "_1" : "_" + QString::number(affix.remove(0, 1).toInt() + 1);\<close>
\<close>

definition next_affix :: "string \<Rightarrow> string" where
  "next_affix affix =
     (if length affix = 0 then ''_1'' else ''_'' @ number (toInt (drop 1 affix) + 1))"

definition affix_index :: "string \<Rightarrow> int" where
  "affix_index affix = (if affix = [] then 0 else toInt (drop 1 affix))"

function free_affix :: "disk \<Rightarrow> string \<Rightarrow> string \<Rightarrow> string \<Rightarrow> string" where
  "free_affix dk recordBaseDir fileName affix =
     (if path_exists dk (absoluteFilePath recordBaseDir (fileName @ affix @ ''.wav''))
      then free_affix dk recordBaseDir fileName (next_affix affix)
      else affix)"
  by pat_completeness auto

text \<open>The names the loop can still come to: the measure of its termination.\<close>

definition pending :: "disk \<Rightarrow> string \<Rightarrow> string \<Rightarrow> string \<Rightarrow> string set" where
  "pending dk d f a =
     {p \<in> fst ` set (files dk) \<union> set (dirs dk).
        \<exists>k. p = absoluteFilePath d (f @ (next_affix ^^ k) a @ ''.wav'')}"

text \<open>
  Modelled from the spec: the member \<open>frameCount\<close> of a recording gets its first value in
  the header of the recorder, which is not among the sources. A recording accumulates
  its frame count from nothing: three frames fed to a new recording give frame count 3.
\<close>

definition initial_frameCount :: int where
  "initial_frameCount = 0"

text \<open>
  The constructor. The accessor \<open>ClientName()\<close> is declared in the same header; it is a
  parameter of the model, a function of the client object.
\<close>

definition new_CJamClient ::
  "(CJamClient \<Rightarrow> string) \<Rightarrow> int \<Rightarrow> int \<Rightarrow> string \<Rightarrow> CHostAddress \<Rightarrow> string \<Rightarrow> disk
     \<Rightarrow> error + disk \<times> CJamClient" where
  "new_CJamClient ClientName frame numChannels' name' address' recordBaseDir dk =
     (let this = \<lparr> startFrame = frame, numChannels = word_of_int numChannels',
                    name = name', address = address', filename = [],
                    frameCount = initial_frameCount \<rparr>;
          fileName = ClientName this @ ''-'' @ number frame @ ''-'' @ number numChannels';
          affix = free_affix dk recordBaseDir fileName [];
          wavFile = absoluteFilePath recordBaseDir (fileName @ affix @ ''.wav'')
      in if \<not> can_open dk wavFile then Inl (CouldNotWrite wavFile)
         else Inr (dk \<lparr> files := files dk @ [(wavFile, WaveFile (numChannels this) [] False)] \<rparr>,
                   this \<lparr> filename := wavFile \<rparr>))"

text \<open>
  \<open>CJamClient::Frame\<close> reads \<open>pcm[i]\<close> for every \<open>i < numChannels * iServerFrameSizeSamples\<close>
  with no check of the length of the vector: a shorter vector is a read out of range.
\<close>

definition CJamClient_Frame ::
  "string \<Rightarrow> 16 word list \<Rightarrow> int \<Rightarrow> CJamClient \<Rightarrow> disk \<Rightarrow> error + disk \<times> CJamClient" where
  "CJamClient_Frame name' pcm iServerFrameSizeSamples this dk =
     (let n = uint (numChannels this) * iServerFrameSizeSamples
      in if int (length pcm) < n then Inl IndexOutOfRange
         else Inr (dk \<lparr> files := update_file (filename this)
                                    (append_samples (take (nat n) pcm)) (files dk) \<rparr>,
                   this \<lparr> name := name', frameCount := frameCount this + 1 \<rparr>))"

definition CJamClient_Disconnect :: "CJamClient \<Rightarrow> disk \<Rightarrow> disk" where
  "CJamClient_Disconnect this dk =
     dk \<lparr> files := update_file (filename this) finalise (files dk) \<rparr>"

section \<open>CJamSession\<close>

text \<open>
  \<open>CJamClientConnection\<close> holds what its constructor is given in \<open>DisconnectClient\<close>;
  its accessors \<open>Format\<close>, \<open>StartFrame\<close>, \<open>Length\<close>, \<open>Name\<close> and \<open>FileName\<close> read the
  five fields.
\<close>

record CJamClientConnection =
  conn_numAudioChannels :: int
  conn_startFrame :: int
  conn_length :: int
  conn_name :: string
  conn_fileName :: string

record CJamSession =
  sessionDir :: string
  currentFrame :: int
  chIdDisconnected :: int
  vecptrJamClients :: "CJamClient option list"
  jamClientConnections :: "CJamClientConnection list"

text \<open>
  The member initialisers of the constructor; the size of the slot vector is
  \<open>MAX_NUM_CHANNELS\<close>, a constant that is not among the sources and is a parameter here.
  The creation of the session directory is not part of the model.
\<close>

definition CJamSession_init :: "nat \<Rightarrow> string \<Rightarrow> CJamSession" where
  "CJamSession_init MAX_NUM_CHANNELS dir =
     \<lparr> sessionDir = dir, currentFrame = 0, chIdDisconnected = - 1,
       vecptrJamClients = replicate MAX_NUM_CHANNELS None, jamClientConnections = [] \<rparr>"

definition valid_chid :: "CJamSession \<Rightarrow> int \<Rightarrow> bool" where
  "valid_chid s iChID = (0 \<le> iChID \<and> iChID < int (length (vecptrJamClients s)))"

definition slot :: "CJamSession \<Rightarrow> int \<Rightarrow> CJamClient option" where
  "slot s iChID = vecptrJamClients s ! nat iChID"

definition set_slot :: "int \<Rightarrow> CJamClient option \<Rightarrow> CJamSession \<Rightarrow> CJamSession" where
  "set_slot iChID c s = s \<lparr> vecptrJamClients := (vecptrJamClients s) [nat iChID := c] \<rparr>"

definition connection_of :: "(CJamClient \<Rightarrow> string) \<Rightarrow> CJamClient \<Rightarrow> CJamClientConnection" where
  "connection_of ClientName c =
     \<lparr> conn_numAudioChannels = uint (numChannels c), conn_startFrame = startFrame c,
       conn_length = frameCount c, conn_name = ClientName c, conn_fileName = filename c \<rparr>"

definition DisconnectClient ::
  "(CJamClient \<Rightarrow> string) \<Rightarrow> int \<Rightarrow> disk \<times> CJamSession \<Rightarrow> error + disk \<times> CJamSession" where
  "DisconnectClient ClientName iChID st =
     (case st of (dk, s) \<Rightarrow>
        if \<not> valid_chid s iChID then Inl IndexOutOfRange
        else
          (case slot s iChID of
             None \<Rightarrow> Inl NullPointer
           | Some c \<Rightarrow>
               Inr (CJamClient_Disconnect c dk,
                    (set_slot iChID None
                       (s \<lparr> jamClientConnections :=
                              jamClientConnections s @ [connection_of ClientName c] \<rparr>))
                    \<lparr> chIdDisconnected := iChID \<rparr>)))"

text \<open>The end of \<open>CJamSession::Frame\<close>, from the second test of the slot on.\<close>

definition feed_frame ::
  "int \<Rightarrow> string \<Rightarrow> 16 word list \<Rightarrow> int \<Rightarrow> disk \<times> CJamSession \<Rightarrow> error + disk \<times> CJamSession" where
  "feed_frame iChID name' data iServerFrameSizeSamples st =
     (case st of (dk, s) \<Rightarrow>
        (case slot s iChID of
           None \<Rightarrow> Inr (dk, s)
         | Some c \<Rightarrow>
             (case CJamClient_Frame name' data iServerFrameSizeSamples c dk of
                Inl e \<Rightarrow> Inl e
              | Inr (dk', c') \<Rightarrow>
                  (let s' = set_slot iChID (Some c') s
                   in if startFrame c' + frameCount c' > currentFrame s'
                      then Inr (dk', s' \<lparr> currentFrame := currentFrame s' + 1 \<rparr>)
                      else Inr (dk', s')))))"

definition open_recording ::
  "(CJamClient \<Rightarrow> string) \<Rightarrow> int \<Rightarrow> string \<Rightarrow> CHostAddress \<Rightarrow> int \<Rightarrow> disk \<times> CJamSession
     \<Rightarrow> error + disk \<times> CJamSession" where
  "open_recording ClientName iChID name' address' numAudioChannels st =
     (case st of (dk, s) \<Rightarrow>
        (case new_CJamClient ClientName (currentFrame s) numAudioChannels name' address'
                (sessionDir s) dk of
           Inl e \<Rightarrow> Inl e
         | Inr (dk', c) \<Rightarrow> Inr (dk', set_slot iChID (Some c) s)))"

definition Frame ::
  "(CJamClient \<Rightarrow> string) \<Rightarrow> int \<Rightarrow> string \<Rightarrow> CHostAddress \<Rightarrow> int \<Rightarrow> 16 word list \<Rightarrow> int
     \<Rightarrow> disk \<times> CJamSession \<Rightarrow> error + disk \<times> CJamSession" where
  "Frame ClientName iChID name' address' numAudioChannels data iServerFrameSizeSamples st =
     (case st of (dk, s) \<Rightarrow>
        if iChID = chIdDisconnected s then Inr (dk, s \<lparr> chIdDisconnected := - 1 \<rparr>)
        else if \<not> valid_chid s iChID then Inl IndexOutOfRange
        else
          (case slot s iChID of
             None \<Rightarrow>
               (case open_recording ClientName iChID name' address' numAudioChannels st of
                  Inl e \<Rightarrow> Inl e
                | Inr st1 \<Rightarrow> feed_frame iChID name' data iServerFrameSizeSamples st1)
           | Some c \<Rightarrow>
               if numAudioChannels \<noteq> uint (numChannels c)
                  \<or> InetAddr address' \<noteq> InetAddr (address c)
                  \<or> iPort address' \<noteq> iPort (address c)
               then
                 (case DisconnectClient ClientName iChID st of
                    Inl e \<Rightarrow> Inl e
                  | Inr (dk1, s1) \<Rightarrow>
                      if numAudioChannels = 0
                      then feed_frame iChID name' data iServerFrameSizeSamples
                             (dk1, set_slot iChID None s1)
                      else
                        (case open_recording ClientName iChID name' address' numAudioChannels
                                (dk1, s1) of
                           Inl e \<Rightarrow> Inl e
                         | Inr st2 \<Rightarrow> feed_frame iChID name' data iServerFrameSizeSamples st2))
               else feed_frame iChID name' data iServerFrameSizeSamples st))"

text \<open>\<open>CJamSession::End\<close>: the loop over the channel ids.\<close>

fun End_loop ::
  "(CJamClient \<Rightarrow> string) \<Rightarrow> nat list \<Rightarrow> disk \<times> CJamSession \<Rightarrow> error + disk \<times> CJamSession" where
  "End_loop ClientName [] st = Inr st"
| "End_loop ClientName (i # is) st =
     (if slot (snd st) (int i) \<noteq> None
      then (case DisconnectClient ClientName (int i) st of
              Inl e \<Rightarrow> Inl e
            | Inr (dk1, s1) \<Rightarrow> End_loop ClientName is (dk1, set_slot (int i) None s1))
      else End_loop ClientName is st)"

definition End :: "(CJamClient \<Rightarrow> string) \<Rightarrow> disk \<times> CJamSession \<Rightarrow> error + disk \<times> CJamSession" where
  "End ClientName st = End_loop ClientName [0 ..< length (vecptrJamClients (snd st))] st"

text \<open>The events the server sends to a session, and a run of them: the first fault ends it.\<close>

datatype event =
    AudioFrame int string CHostAddress int "16 word list"
  | ClientDisconnected int

fun step ::
  "(CJamClient \<Rightarrow> string) \<Rightarrow> int \<Rightarrow> event \<Rightarrow> disk \<times> CJamSession \<Rightarrow> error + disk \<times> CJamSession" where
  "step ClientName fss (AudioFrame iChID name' address' numAudioChannels data) st =
     Frame ClientName iChID name' address' numAudioChannels data fss st"
| "step ClientName fss (ClientDisconnected iChID) st = DisconnectClient ClientName iChID st"

fun run ::
  "(CJamClient \<Rightarrow> string) \<Rightarrow> int \<Rightarrow> event list \<Rightarrow> disk \<times> CJamSession \<Rightarrow> error + disk \<times> CJamSession" where
  "run ClientName fss [] st = Inr st"
| "run ClientName fss (e # es) st =
     (case step ClientName fss e st of Inl err \<Rightarrow> Inl err | Inr st' \<Rightarrow> run ClientName fss es st')"

text \<open>The session after the recording \<open>c\<close> of slot \<open>iChID\<close> has been finalised.\<close>

definition disconnected :: "(CJamClient \<Rightarrow> string) \<Rightarrow> int \<Rightarrow> CJamClient \<Rightarrow> CJamSession \<Rightarrow> CJamSession" where
  "disconnected ClientName iChID c s =
     (set_slot iChID None
        (s \<lparr> jamClientConnections := jamClientConnections s @ [connection_of ClientName c] \<rparr>))
     \<lparr> chIdDisconnected := iChID \<rparr>"

section \<open>Tracks\<close>

text \<open>
  \<open>STrackItem\<close> and the map \<open>QMap<QString, QList<STrackItem>>\<close>: an association list
  kept in the order of the keys, which is the order a \<open>QMap\<close> is iterated in.
\<close>

record STrackItem =
  item_numAudioChannels :: int
  item_startFrame :: int
  item_length :: int
  item_fileName :: string

type_synonym tracks = "(string \<times> STrackItem list) list"

fun str_less :: "string \<Rightarrow> string \<Rightarrow> bool" where
  "str_less [] [] = False"
| "str_less [] (y # ys) = True"
| "str_less (x # xs) [] = False"
| "str_less (x # xs) (y # ys) = ((of_char x :: nat) < of_char y \<or> (x = y \<and> str_less xs ys))"

text \<open>
  \<^verbatim>\<open>if (!tracks.contains(k)) tracks.insert(k, { }); tracks[k].append(track);\<close>
\<close>

fun qmap_append :: "string \<Rightarrow> STrackItem \<Rightarrow> tracks \<Rightarrow> tracks" where
  "qmap_append k v [] = [(k, [v])]"
| "qmap_append k v ((k', vs) # m) =
     (if k = k' then (k', vs @ [v]) # m
      else if str_less k k' then (k, [v]) # (k', vs) # m
      else (k', vs) # qmap_append k v m)"

definition track_of_connection :: "CJamClientConnection \<Rightarrow> STrackItem" where
  "track_of_connection c =
     \<lparr> item_numAudioChannels = conn_numAudioChannels c, item_startFrame = conn_startFrame c,
       item_length = conn_length c, item_fileName = conn_fileName c \<rparr>"

definition Tracks :: "CJamSession \<Rightarrow> tracks" where
  "Tracks s =
     foldl (\<lambda>tracks c. qmap_append (conn_name c) (track_of_connection c) tracks) []
       (jamClientConnections s)"

text \<open>
  \<open>sessionDir.entryList({ "*.pcm" })\<close>: the entries of the directory whose name ends in
  \<open>.pcm\<close>, upper or lower case, as the name filters of \<open>QDir\<close> match. The entries come in
  the order of the disk; directories of such a name are not modelled.
\<close>

definition entry_name :: "string \<Rightarrow> string \<Rightarrow> string option" where
  "entry_name d p =
     (let e = drop (length d + 1) p
      in if take (length d + 1) p = d @ ''/'' \<and> e \<noteq> [] \<and> CHR ''/'' \<notin> set e
         then Some e else None)"

definition entryList_pcm :: "disk \<Rightarrow> string \<Rightarrow> (string \<times> content) list" where
  "entryList_pcm dk d =
     List.map_filter
       (\<lambda>(p, x). case entry_name d p of
                    None \<Rightarrow> None
                  | Some e \<Rightarrow> if ends_with ''.pcm'' (map lower_char e) then Some (e, x) else None)
       (files dk)"

text \<open>
  \<open>QFileInfo::size\<close>. The header of a WAV file is written by \<open>CWaveStream\<close>, which is
  not among the sources: its size is the parameter \<open>waveHeaderSize\<close>. A sample is two
  bytes.
\<close>

definition file_size :: "nat \<Rightarrow> content \<Rightarrow> int" where
  "file_size waveHeaderSize f =
     (case f of
        WaveFile n samples fin \<Rightarrow> int waveHeaderSize + 2 * int (length samples)
      | TextFile t \<Rightarrow> int (length t)
      | RawFile n \<Rightarrow> int n)"

text \<open>The division of C++ on integers, which truncates towards zero.\<close>

definition tdiv :: "int \<Rightarrow> int \<Rightarrow> int" where
  "tdiv a b = sgn a * sgn b * (\<bar>a\<bar> div \<bar>b\<bar>)"

definition toLongLong :: "string \<Rightarrow> int" where
  "toLongLong s = toInt s"

text \<open>
  The body of the loop of \<open>TracksFromSessionDir\<close> for one entry, up to the track item.
  The four reads \<open>split[0]\<close> to \<open>split[3]\<close> are out of range when the name has fewer parts.
\<close>

definition track_of_entry :: "string \<Rightarrow> string \<Rightarrow> int \<Rightarrow> int \<Rightarrow> error + string \<times> STrackItem" where
  "track_of_entry sessionDirName entry size' iServerFrameSizeSamples =
     (case split CHR ''.'' entry of
        [] \<Rightarrow> Inl IndexOutOfRange
      | stem # rest \<Rightarrow>
          (let split' = split CHR ''-'' stem
           in if length split' < 4 then Inl IndexOutOfRange
              else
                (let name' = split' ! 0; hostPort = split' ! 1; frame = split' ! 2;
                     tail = split' ! 3;
                     numChannels' =
                       (if count_list tail CHR ''_'' > 0
                        then (case split CHR ''_'' tail of [] \<Rightarrow> [] | x # xs \<Rightarrow> x)
                        else tail);
                     trackName = name' @ ''-'' @ hostPort
                 in if toInt numChannels' = 0 \<or> iServerFrameSizeSamples = 0
                    then Inl DivisionByZero
                    else Inr (trackName,
                              \<lparr> item_numAudioChannels = toInt numChannels',
                                item_startFrame = toLongLong frame,
                                item_length =
                                  tdiv (tdiv size' (toInt numChannels')) iServerFrameSizeSamples,
                                item_fileName = absoluteFilePath sessionDirName entry \<rparr>))))"

fun TracksFromSessionDir_loop ::
  "nat \<Rightarrow> string \<Rightarrow> int \<Rightarrow> (string \<times> content) list \<Rightarrow> tracks \<Rightarrow> error + tracks" where
  "TracksFromSessionDir_loop waveHeaderSize sessionDirName fss [] tracks = Inr tracks"
| "TracksFromSessionDir_loop waveHeaderSize sessionDirName fss ((entry, x) # es) tracks =
     (case track_of_entry sessionDirName entry (file_size waveHeaderSize x) fss of
        Inl e \<Rightarrow> Inl e
      | Inr (trackName, track) \<Rightarrow>
          TracksFromSessionDir_loop waveHeaderSize sessionDirName fss es
            (qmap_append trackName track tracks))"

definition TracksFromSessionDir :: "nat \<Rightarrow> disk \<Rightarrow> string \<Rightarrow> int \<Rightarrow> error + tracks" where
  "TracksFromSessionDir waveHeaderSize dk sessionDirName iServerFrameSizeSamples =
     TracksFromSessionDir_loop waveHeaderSize sessionDirName iServerFrameSizeSamples
       (entryList_pcm dk sessionDirName) []"

section \<open>CJamRecorder\<close>

text \<open>
  The recorder, the messages it logs, and the disk. \<open>CReaperProject\<close> and
  \<open>secondsAt48K\<close> are not among the sources: the text of a project
  (\<open>CReaperProject (tracks, frameSize).toString()\<close>) and the text the stream prints for
  \<open>secondsAt48K (startFrame, frameSize)\<close> are parameters.
\<close>

record CJamRecorder =
  recordBaseDir :: string
  isRecording :: bool
  currentSession :: "CJamSession option"
  iServerFrameSizeSamples :: int

datatype log_entry = qWarning string | qDebug string

definition dirName :: "string \<Rightarrow> string" where
  "dirName p = rev (takeWhile (\<lambda>c. c \<noteq> CHR ''/'') (rev p))"

text \<open>
  Modelled from the spec: the accessor \<open>Name()\<close> of the session is declared in the header
  of the recorder, which is not among the sources. The project exports are named after the
  base name of the session directory.
\<close>

definition Name :: "CJamSession \<Rightarrow> string" where
  "Name s = dirName (sessionDir s)"

definition endl :: string where
  "endl = [CHR 0x0A]"

definition reaperProjectFileName :: "CJamSession \<Rightarrow> string" where
  "reaperProjectFileName s = absoluteFilePath (sessionDir s) (Name s @ ''.rpp'')"

definition audacityLofFileName :: "CJamSession \<Rightarrow> string" where
  "audacityLofFileName s = absoluteFilePath (sessionDir s) (Name s @ ''.lof'')"

definition ReaperProjectFromCurrentSession ::
  "(tracks \<Rightarrow> int \<Rightarrow> string) \<Rightarrow> CJamRecorder \<Rightarrow> disk \<times> log_entry list
     \<Rightarrow> error + disk \<times> log_entry list" where
  "ReaperProjectFromCurrentSession toString r w =
     (case w of (dk, lg) \<Rightarrow>
        (case currentSession r of
           None \<Rightarrow> Inl NullPointer
         | Some s \<Rightarrow>
             if path_exists dk (reaperProjectFileName s)
             then Inr (dk, lg @ [qWarning (''CJamRecorder::ReaperProjectFromCurrentSession(): ''
                                   @ sessionDir s @ '' exists and will not be overwritten.'')])
             else if can_open dk (reaperProjectFileName s)
             then Inr (dk \<lparr> files := write_file (reaperProjectFileName s)
                                      (TextFile (toString (Tracks s) (iServerFrameSizeSamples r)
                                                 @ endl))
                                      (files dk) \<rparr>,
                       lg @ [qDebug (''Session RPP: '' @ reaperProjectFileName s)])
             else Inr (dk, lg @ [qWarning (''CJamRecorder::ReaperProjectFromCurrentSession(): ''
                                   @ sessionDir s @ '' could not be created, no RPP written.'')])))"

definition lof_line :: "(int \<Rightarrow> int \<Rightarrow> string) \<Rightarrow> int \<Rightarrow> STrackItem \<Rightarrow> string" where
  "lof_line offsetText fss item =
     ''file '' @ [CHR 0x22] @ dirName (item_fileName item) @ [CHR 0x22]
     @ '' offset '' @ offsetText (item_startFrame item) fss @ endl"

definition lof_text :: "(int \<Rightarrow> int \<Rightarrow> string) \<Rightarrow> int \<Rightarrow> tracks \<Rightarrow> string" where
  "lof_text offsetText fss tracks =
     concat (map (\<lambda>(trackName, items). concat (map (lof_line offsetText fss) items)) tracks)"

definition AudacityLofFromCurrentSession ::
  "(int \<Rightarrow> int \<Rightarrow> string) \<Rightarrow> CJamRecorder \<Rightarrow> disk \<times> log_entry list
     \<Rightarrow> error + disk \<times> log_entry list" where
  "AudacityLofFromCurrentSession offsetText r w =
     (case w of (dk, lg) \<Rightarrow>
        (case currentSession r of
           None \<Rightarrow> Inl NullPointer
         | Some s \<Rightarrow>
             if path_exists dk (audacityLofFileName s)
             then Inr (dk, lg @ [qWarning (''CJamRecorder::AudacityLofFromCurrentSession(): ''
                                   @ sessionDir s @ '' exists and will not be overwritten.'')])
             else if can_open dk (audacityLofFileName s)
             then Inr (dk \<lparr> files := write_file (audacityLofFileName s)
                                      (TextFile (lof_text offsetText (iServerFrameSizeSamples r)
                                                   (Tracks s)))
                                      (files dk) \<rparr>,
                       lg @ [qDebug (''Session LOF: '' @ audacityLofFileName s)])
             else Inr (dk, lg @ [qWarning (''CJamRecorder::AudacityLofFromCurrentSession(): ''
                                   @ sessionDir s @ '' could not be created, no LOF written.'')])))"

text \<open>The two calls of the exporters, in the order of \<open>OnEnd\<close>.\<close>

definition exporters ::
  "(tracks \<Rightarrow> int \<Rightarrow> string) \<Rightarrow> (int \<Rightarrow> int \<Rightarrow> string) \<Rightarrow> CJamRecorder
     \<Rightarrow> disk \<times> log_entry list \<Rightarrow> error + disk \<times> log_entry list" where
  "exporters toString offsetText r w =
     (case ReaperProjectFromCurrentSession toString r w of
        Inl e \<Rightarrow> Inl e
      | Inr w' \<Rightarrow> AudacityLofFromCurrentSession offsetText r w')"

definition OnEnd ::
  "(CJamClient \<Rightarrow> string) \<Rightarrow> (tracks \<Rightarrow> int \<Rightarrow> string) \<Rightarrow> (int \<Rightarrow> int \<Rightarrow> string)
     \<Rightarrow> CJamRecorder \<times> disk \<times> log_entry list \<Rightarrow> error + CJamRecorder \<times> disk \<times> log_entry list" where
  "OnEnd ClientName toString offsetText rw =
     (case rw of (r, dk, lg) \<Rightarrow>
        if isRecording r
        then (case currentSession r of
                None \<Rightarrow> Inl NullPointer
              | Some s \<Rightarrow>
                  (case End ClientName (dk, s) of
                     Inl e \<Rightarrow> Inl e
                   | Inr (dk', s') \<Rightarrow>
                       (case exporters toString offsetText
                               (r \<lparr> isRecording := False, currentSession := Some s' \<rparr>)
                               (dk', lg) of
                          Inl e \<Rightarrow> Inl e
                        | Inr (dk'', lg') \<Rightarrow>
                            Inr (r \<lparr> isRecording := False, currentSession := None \<rparr>,
                                 dk'', lg'))))
        else Inr (r, dk, lg))"

definition OnDisconnected ::
  "(CJamClient \<Rightarrow> string) \<Rightarrow> int \<Rightarrow> CJamRecorder \<times> disk \<times> log_entry list
     \<Rightarrow> error + CJamRecorder \<times> disk \<times> log_entry list" where
  "OnDisconnected ClientName iChID rw =
     (case rw of (r, dk, lg) \<Rightarrow>
        (let lg1 = (if \<not> isRecording r
                    then lg @ [qWarning (''CJamRecorder::OnDisconnected: channel ''
                                 @ number iChID @ '' disconnected but not recording'')]
                    else lg)
         in case currentSession r of
              None \<Rightarrow>
                Inr (r, dk, lg1 @ [qWarning (''CJamRecorder::OnDisconnected: channel ''
                                     @ number iChID @ '' disconnected but no currentSession'')])
            | Some s \<Rightarrow>
                (case DisconnectClient ClientName iChID (dk, s) of
                   Inl e \<Rightarrow> Inl e
                 | Inr (dk', s') \<Rightarrow> Inr (r \<lparr> currentSession := Some s' \<rparr>, dk', lg1))))"

text \<open>
  \<open>SessionDirToReaper\<close>, for a directory name that is a clean absolute path
  (\<open>QDir::cleanPath\<close> and \<open>absoluteFilePath\<close> leave it as it is). The result is the disk
  when the function returns or throws, and what it throws. The project file is opened,
  and so created, before the tracks are read from the directory.
\<close>

definition baseName :: "string \<Rightarrow> string" where
  "baseName p = takeWhile (\<lambda>c. c \<noteq> CHR ''.'') (dirName p)"

definition SessionDirToReaper ::
  "(tracks \<Rightarrow> int \<Rightarrow> string) \<Rightarrow> nat \<Rightarrow> string \<Rightarrow> int \<Rightarrow> disk \<Rightarrow> disk \<times> error option" where
  "SessionDirToReaper toString waveHeaderSize strSessionDirName serverFrameSizeSamples dk =
     (if \<not> path_exists dk strSessionDirName \<or> \<not> isDir dk strSessionDirName
      then (dk, Some (NotADirectory strSessionDirName))
      else
        (let reaperProjectFileName' =
               absoluteFilePath strSessionDirName (baseName strSessionDirName @ ''.rpp'')
         in if path_exists dk reaperProjectFileName'
            then (dk, Some (WillNotOverwrite reaperProjectFileName'))
            else if \<not> can_open dk reaperProjectFileName'
            then (dk, Some (CouldNotWrite reaperProjectFileName'))
            else
              (let dk' = dk \<lparr> files := write_file reaperProjectFileName' (TextFile [])
                                            (files dk) \<rparr>
               in case TracksFromSessionDir waveHeaderSize dk' strSessionDirName
                         serverFrameSizeSamples of
                    Inl e \<Rightarrow> (dk', Some e)
                  | Inr tracks \<Rightarrow>
                      (dk' \<lparr> files := write_file reaperProjectFileName'
                                         (TextFile (toString tracks serverFrameSizeSamples @ endl))
                                         (files dk') \<rparr>,
                       None))))"

text \<open>The suffixes \<open>_1\<close>, \<open>_2\<close>, ... of the file names, the empty one first.\<close>

definition affix_of :: "nat \<Rightarrow> string" where
  "affix_of m = (if m = 0 then [] else ''_'' @ number (int m))"

text \<open>The file name the constructor starts from.\<close>

definition base_fileName :: "(CJamClient \<Rightarrow> string) \<Rightarrow> int \<Rightarrow> int \<Rightarrow> string \<Rightarrow> CHostAddress \<Rightarrow> string" where
  "base_fileName ClientName frame numChannels' name' address' =
     ClientName \<lparr> startFrame = frame, numChannels = word_of_int numChannels', name = name',
                  address = address', filename = [], frameCount = initial_frameCount \<rparr>
     @ ''-'' @ number frame @ ''-'' @ number numChannels'"

text \<open>
  A concrete session for the examples: one slot holds a stereo recording of one frame
  (frames of two samples per channel), the state after the first frame of a client.
\<close>

definition example_address :: CHostAddress where
  "example_address = \<lparr> InetAddr = ''10.0.0.1'', iPort = 22124 \<rparr>"

definition example_recording :: CJamClient where
  "example_recording =
     \<lparr> startFrame = 0, numChannels = 2, name = ''Alice'', address = example_address,
       filename = ''/rec/Jam-1/Alice-0-2.wav'', frameCount = 1 \<rparr>"

definition example_disk :: disk where
  "example_disk =
     \<lparr> files = [(''/rec/Jam-1/Alice-0-2.wav'', WaveFile 2 [1, 2, 3, 4] False)],
       dirs = [''/rec/Jam-1''], can_open = (\<lambda>p. True) \<rparr>"

definition example_session :: CJamSession where
  "example_session =
     \<lparr> sessionDir = ''/rec/Jam-1'', currentFrame = 1, chIdDisconnected = - 1,
       vecptrJamClients = [Some example_recording, None], jamClientConnections = [] \<rparr>"

definition empty_disk :: disk where
  "empty_disk = \<lparr> files = [], dirs = [''/rec/Jam-1''], can_open = (\<lambda>p. True) \<rparr>"

definition pcm_disk :: disk where
  "pcm_disk =
     \<lparr> files = [(''/rec/Jam-1/Alice-10_0_0_1_22124-0-2.pcm'', RawFile 1536)],
       dirs = [''/rec/Jam-1''], can_open = (\<lambda>p. True) \<rparr>"

definition exported_disk :: disk where
  "exported_disk =
     \<lparr> files = [(''/rec/Jam-1/Alice-0-2.wav'', WaveFile 2 [1, 2, 3, 4] True),
                (''/rec/Jam-1/Jam-1.rpp'', TextFile ''first export'')],
       dirs = [''/rec/Jam-1''], can_open = (\<lambda>p. True) \<rparr>"

definition example_recorder :: CJamRecorder where
  "example_recorder =
     \<lparr> recordBaseDir = ''/rec'', isRecording = False,
       currentSession = Some (disconnected name 0 example_recording example_session),
       iServerFrameSizeSamples = 2 \<rparr>"

section \<open>Termination of the search for a free file name\<close>

text \<open>
  The conversions are inverse to each other, so the loop of the constructor never tries a
  name twice; the files on the disk are finitely many, so it ends.
\<close>

lemma digit_val_digit_char:
  assumes "d < 10"
  shows "digit_val (digit_char d) = Some d"
proof -
  from assms have "d = 0 \<or> d = 1 \<or> d = 2 \<or> d = 3 \<or> d = 4 \<or> d = 5 \<or> d = 6 \<or> d = 7
      \<or> d = 8 \<or> d = 9"
    by arith
  then show ?thesis
    by (elim disjE) (simp_all add: digit_val_def digit_char_def)
qed

lemma parse_acc_snoc:
  "parse_acc a (xs @ [c]) =
     (case parse_acc a xs of None \<Rightarrow> None
      | Some v \<Rightarrow> (case digit_val c of None \<Rightarrow> None | Some d \<Rightarrow> Some (10 * v + d)))"
  by (induction xs arbitrary: a) (auto split: option.splits)

lemma parse_acc_digits: "parse_acc 0 (digits n) = Some n"
proof (induction n rule: digits.induct)
  case (1 n)
  show ?case
  proof (cases "n < 10")
    case True
    then show ?thesis by (simp add: digits.simps [of n] digit_val_digit_char)
  next
    case False
    with 1 have "parse_acc 0 (digits (n div 10)) = Some (n div 10)" by simp
    with False show ?thesis
      by (simp add: digits.simps [of n] parse_acc_snoc digit_val_digit_char)
  qed
qed

lemma digits_nonempty: "digits n \<noteq> []"
  by (subst digits.simps) simp

lemma hd_digits_digit: "digit_val (hd (digits n)) \<noteq> None"
proof (induction n rule: digits.induct)
  case (1 n)
  show ?case
  proof (cases "n < 10")
    case True
    then show ?thesis by (simp add: digits.simps [of n] digit_val_digit_char)
  next
    case False
    with 1 have "digit_val (hd (digits (n div 10))) \<noteq> None" by simp
    with False show ?thesis
      by (simp add: digits.simps [of n] digits_nonempty)
  qed
qed

lemma parse_unsigned_digits: "parse_unsigned (digits n) = int n"
  by (simp add: parse_unsigned_def digits_nonempty parse_acc_digits)

lemma toInt_number: "toInt (number i) = i"
proof (cases "i < 0")
  case True
  then show ?thesis
    by (simp add: number_def toInt_def parse_unsigned_digits)
next
  case False
  obtain c cs where d: "digits (nat i) = c # cs"
    using digits_nonempty [of "nat i"] by (cases "digits (nat i)") auto
  have "digit_val c \<noteq> None"
    using hd_digits_digit [of "nat i"] d by simp
  then have "c \<noteq> CHR ''-''" "c \<noteq> CHR ''+''"
    by (auto simp: digit_val_def)
  with False d show ?thesis
    using parse_unsigned_digits [of "nat i"] by (simp add: number_def toInt_def)
qed

lemma toInt_1: "toInt ''1'' = 1"
  by (simp add: toInt_def parse_unsigned_def digit_val_def)

lemma affix_index_next: "affix_index (next_affix a) = affix_index a + 1"
  by (auto simp: affix_index_def next_affix_def toInt_number toInt_1)

lemma affix_index_funpow: "affix_index ((next_affix ^^ k) a) = affix_index a + int k"
  by (induction k) (simp_all add: affix_index_next)

lemma next_affix_funpow_neq: "(next_affix ^^ Suc k) a \<noteq> a"
proof
  assume eq: "(next_affix ^^ Suc k) a = a"
  from affix_index_funpow [of "Suc k" a]
  have "affix_index a = affix_index a + int (Suc k)" unfolding eq .
  then show False by simp
qed

lemma pending_decreases:
  assumes "path_exists dk (absoluteFilePath d (f @ a @ ''.wav''))"
  shows "card (pending dk d f (next_affix a)) < card (pending dk d f a)"
proof (rule psubset_card_mono)
  show "finite (pending dk d f a)" by (simp add: pending_def)
  let ?p = "absoluteFilePath d (f @ a @ ''.wav'')"
  have sub: "pending dk d f (next_affix a) \<subseteq> pending dk d f a"
  proof
    fix p assume "p \<in> pending dk d f (next_affix a)"
    then obtain k where m: "p \<in> fst ` set (files dk) \<union> set (dirs dk)"
      and e: "p = absoluteFilePath d (f @ (next_affix ^^ k) (next_affix a) @ ''.wav'')"
      by (auto simp: pending_def)
    have "(next_affix ^^ k) (next_affix a) = (next_affix ^^ Suc k) a"
      by (simp add: funpow_swap1)
    with e have "p = absoluteFilePath d (f @ (next_affix ^^ Suc k) a @ ''.wav'')" by simp
    with m show "p \<in> pending dk d f a" unfolding pending_def by blast
  qed
  have "(next_affix ^^ 0) a = a" by simp
  then have "?p = absoluteFilePath d (f @ (next_affix ^^ 0) a @ ''.wav'')" by simp
  with assms have inn: "?p \<in> pending dk d f a"
    unfolding pending_def path_exists_def by blast
  have out: "?p \<notin> pending dk d f (next_affix a)"
  proof
    assume "?p \<in> pending dk d f (next_affix a)"
    then obtain k where "?p = absoluteFilePath d (f @ (next_affix ^^ k) (next_affix a) @ ''.wav'')"
      by (auto simp: pending_def)
    then have "(next_affix ^^ k) (next_affix a) = a"
      by (simp add: absoluteFilePath_def)
    then have "(next_affix ^^ Suc k) a = a" by (simp add: funpow_swap1)
    then show False using next_affix_funpow_neq by blast
  qed
  from sub inn out show "pending dk d f (next_affix a) \<subset> pending dk d f a" by blast
qed

termination free_affix
  by (relation "measure (\<lambda>(dk, d, f, a). card (pending dk d f a))")
     (simp_all add: pending_decreases)

declare free_affix.simps [simp del]

section \<open>Basic facts about the session operations\<close>

lemma free_affix_free:
  "\<not> path_exists dk (absoluteFilePath d (f @ free_affix dk d f a @ ''.wav''))"
proof (induction dk d f a rule: free_affix.induct)
  case (1 dk d f a)
  show ?case
  proof (cases "path_exists dk (absoluteFilePath d (f @ a @ ''.wav''))")
    case True
    with 1 show ?thesis by (simp add: free_affix.simps [of dk d f a])
  next
    case False
    then show ?thesis by (simp add: free_affix.simps [of dk d f a])
  qed
qed

lemma new_CJamClient_Inr:
  assumes "new_CJamClient cn fr k n a d dk = Inr (dk', c)"
  shows "startFrame c = fr" and "numChannels c = word_of_int k" and "name c = n"
    and "address c = a" and "frameCount c = 0" and "\<not> path_exists dk (filename c)"
    and "dk' = dk \<lparr> files := files dk @ [(filename c, WaveFile (word_of_int k) [] False)] \<rparr>"
  using assms
    free_affix_free [of dk d
      "cn \<lparr> startFrame = fr, numChannels = word_of_int k, name = n, address = a,
            filename = [], frameCount = 0 \<rparr> @ ''-'' @ number fr @ ''-'' @ number k" "[]"]
  by (auto simp: new_CJamClient_def initial_frameCount_def Let_def split: if_splits)

lemma slot_set_slot_same:
  "valid_chid s i \<Longrightarrow> slot (set_slot i c s) i = c"
  by (simp add: slot_def set_slot_def valid_chid_def nat_less_iff)

lemma slot_set_slot_other:
  "0 \<le> i \<Longrightarrow> 0 \<le> j \<Longrightarrow> i \<noteq> j \<Longrightarrow> slot (set_slot i c s) j = slot s j"
  by (simp add: slot_def set_slot_def)

lemma valid_chid_set_slot [simp]: "valid_chid (set_slot i c s) j = valid_chid s j"
  by (simp add: valid_chid_def set_slot_def)

lemma set_slot_fields [simp]:
  "currentFrame (set_slot i c s) = currentFrame s"
  "chIdDisconnected (set_slot i c s) = chIdDisconnected s"
  "jamClientConnections (set_slot i c s) = jamClientConnections s"
  "sessionDir (set_slot i c s) = sessionDir s"
  by (simp_all add: set_slot_def)

lemma valid_chid_updates [simp]:
  "valid_chid (s \<lparr> chIdDisconnected := m \<rparr>) j = valid_chid s j"
  "valid_chid (s \<lparr> jamClientConnections := cs \<rparr>) j = valid_chid s j"
  "valid_chid (s \<lparr> currentFrame := f \<rparr>) j = valid_chid s j"
  by (simp_all add: valid_chid_def)

lemma slot_updates [simp]:
  "slot (s \<lparr> chIdDisconnected := m \<rparr>) j = slot s j"
  "slot (s \<lparr> jamClientConnections := cs \<rparr>) j = slot s j"
  "slot (s \<lparr> currentFrame := f \<rparr>) j = slot s j"
  by (simp_all add: slot_def)

lemma DisconnectClient_active:
  "valid_chid s i \<Longrightarrow> slot s i = Some r \<Longrightarrow>
   DisconnectClient cn i (dk, s) = Inr (CJamClient_Disconnect r dk, disconnected cn i r s)"
  by (simp add: DisconnectClient_def disconnected_def)

lemma DisconnectClient_empty:
  "valid_chid s i \<Longrightarrow> slot s i = None \<Longrightarrow> DisconnectClient cn i (dk, s) = Inl NullPointer"
  by (simp add: DisconnectClient_def)

lemma disconnected_fields [simp]:
  "chIdDisconnected (disconnected cn i r s) = i"
  "currentFrame (disconnected cn i r s) = currentFrame s"
  "sessionDir (disconnected cn i r s) = sessionDir s"
  "jamClientConnections (disconnected cn i r s) = jamClientConnections s @ [connection_of cn r]"
  "valid_chid (disconnected cn i r s) j = valid_chid s j"
  by (simp_all add: disconnected_def)


lemma vec_disconnected:
  "vecptrJamClients (disconnected cn i r s) = (vecptrJamClients s) [nat i := None]"
  by (simp add: disconnected_def set_slot_def)

lemma Frame_marker:
  "chIdDisconnected s = i \<Longrightarrow>
   Frame cn i n a k d fss (dk, s) = Inr (dk, s \<lparr> chIdDisconnected := - 1 \<rparr>)"
  by (simp add: Frame_def)

lemma feed_frame_fresh:
  assumes "valid_chid s i" and "slot s i = Some c"
    and "uint (numChannels c) * fss \<le> int (length d)"
  shows "\<exists>dk' s'. feed_frame i n d fss (dk, s) = Inr (dk', s')
           \<and> slot s' i = Some (c \<lparr> name := n, frameCount := frameCount c + 1 \<rparr>)
           \<and> vecptrJamClients s' =
               (vecptrJamClients s) [nat i := Some (c \<lparr> name := n, frameCount := frameCount c + 1 \<rparr>)]
           \<and> jamClientConnections s' = jamClientConnections s
           \<and> chIdDisconnected s' = chIdDisconnected s
           \<and> currentFrame s' =
               (if startFrame c + (frameCount c + 1) > currentFrame s
                then currentFrame s + 1 else currentFrame s)"
  using assms
  by (auto simp: feed_frame_def CJamClient_Frame_def Let_def slot_def set_slot_def
        valid_chid_def nat_less_iff)


lemma Frame_identity_change:
  assumes v: "valid_chid s c" and a: "slot s c = Some r" and m: "chIdDisconnected s \<noteq> c"
    and ch: "numAudioChannels \<noteq> uint (numChannels r)
             \<or> InetAddr address' \<noteq> InetAddr (address r)
             \<or> iPort address' \<noteq> iPort (address r)"
  shows "Frame ClientName c name' address' numAudioChannels data fss (dk, s) =
     (if numAudioChannels = 0
      then feed_frame c name' data fss
             (CJamClient_Disconnect r dk, set_slot c None (disconnected ClientName c r s))
      else (case open_recording ClientName c name' address' numAudioChannels
                   (CJamClient_Disconnect r dk, disconnected ClientName c r s) of
              Inl e \<Rightarrow> Inl e
            | Inr st2 \<Rightarrow> feed_frame c name' data fss st2))"
  using v a m ch by (simp add: Frame_def DisconnectClient_active)

lemma feed_frame_currentFrame:
  assumes "feed_frame i n d fss (dk, s) = Inr (dk', s')" and "valid_chid s i"
  shows "currentFrame s' =
           (if \<exists>c'. slot s' i = Some c' \<and> startFrame c' + frameCount c' > currentFrame s
            then currentFrame s + 1 else currentFrame s)"
  using assms
  by (auto simp: feed_frame_def CJamClient_Frame_def Let_def slot_set_slot_same
           split: option.splits if_splits)

lemma DisconnectClient_currentFrame:
  "DisconnectClient cn i (dk, s) = Inr (dk', s') \<Longrightarrow> currentFrame s' = currentFrame s"
  by (auto simp: DisconnectClient_def split: if_splits option.splits)

lemma DisconnectClient_valid:
  "DisconnectClient cn i (dk, s) = Inr (dk', s') \<Longrightarrow> valid_chid s' j = valid_chid s j"
  by (auto simp: DisconnectClient_def split: if_splits option.splits)

lemma open_recording_keeps:
  "open_recording cn i n a k (dk, s) = Inr (dk', s') \<Longrightarrow>
     currentFrame s' = currentFrame s \<and> valid_chid s' j = valid_chid s j"
  by (auto simp: open_recording_def split: sum.splits)

lemma Frame_currentFrame:
  assumes F: "Frame cn i n a k d fss (dk, s) = Inr (dk', s')"
  shows "currentFrame s' =
           (if i \<noteq> chIdDisconnected s
               \<and> (\<exists>c'. slot s' i = Some c' \<and> startFrame c' + frameCount c' > currentFrame s)
            then currentFrame s + 1 else currentFrame s)"
proof (cases "i = chIdDisconnected s")
  case True
  with F show ?thesis by (auto simp: Frame_def)
next
  case False
  with F have v: "valid_chid s i" by (auto simp: Frame_def split: if_splits)
  from F False v obtain dk1 s1 where
    f: "feed_frame i n d fss (dk1, s1) = Inr (dk', s')"
    and k: "currentFrame s1 = currentFrame s" "valid_chid s1 i"
    by (fastforce simp: Frame_def split: option.splits sum.splits if_splits prod.splits
          dest: open_recording_keeps [where j = i] DisconnectClient_currentFrame
            DisconnectClient_valid [where j = i])
  from feed_frame_currentFrame [OF f k(2)] k(1) False show ?thesis by simp
qed

lemmas example_defs = example_address_def example_recording_def example_disk_def
  example_session_def empty_disk_def pcm_disk_def exported_disk_def example_recorder_def

lemmas eval_defs = Frame_def DisconnectClient_def feed_frame_def open_recording_def
  new_CJamClient_def initial_frameCount_def CJamClient_Frame_def CJamClient_Disconnect_def
  valid_chid_def slot_def
  set_slot_def connection_of_def disconnected_def path_exists_def absoluteFilePath_def
  append_samples_def finalise_def Let_def free_affix.simps CJamSession_init_def

lemma number_0: "number 0 = ''0''" by (simp add: number_def digits.simps digit_char_def)
lemma number_1: "number 1 = ''1''" by (simp add: number_def digits.simps digit_char_def)
lemma number_2: "number 2 = ''2''" by (simp add: number_def digits.simps digit_char_def)

lemma replicate_2: "replicate 2 x = [x, x]"
  by (simp add: numeral_2_eq_2)

lemma example_reached:
  "Frame name 0 ''Alice'' example_address 2 [1, 2, 3, 4] 2
     (empty_disk, CJamSession_init 2 ''/rec/Jam-1'') = Inr (example_disk, example_session)"
  by (simp add: eval_defs example_defs number_0 number_2 replicate_2)

lemma set_slot_disconnected [simp]:
  "set_slot c None (disconnected cn c r s) = disconnected cn c r s"
  by (simp add: disconnected_def set_slot_def)

lemma run_currentFrame:
  "run cn fss es st = Inr st' \<Longrightarrow> currentFrame (snd st) \<le> currentFrame (snd st')"
proof (induction es arbitrary: st)
  case Nil
  then show ?case by simp
next
  case (Cons e es)
  then obtain st1 where s: "step cn fss e st = Inr st1" and r: "run cn fss es st1 = Inr st'"
    by (auto split: sum.splits)
  have "currentFrame (snd st) \<le> currentFrame (snd st1)"
  proof (cases e)
    case (AudioFrame i n a k d)
    with s have "Frame cn i n a k d fss (fst st, snd st) = Inr (fst st1, snd st1)" by simp
    from Frame_currentFrame [OF this] show ?thesis by (simp split: if_splits)
  next
    case (ClientDisconnected i)
    with s have "DisconnectClient cn i (fst st, snd st) = Inr (fst st1, snd st1)" by simp
    from DisconnectClient_currentFrame [OF this] show ?thesis by simp
  qed
  with Cons.IH [OF r] show ?case by simp
qed

lemma run_currentFrame_bound:
  "run cn fss es st = Inr st' \<Longrightarrow> currentFrame (snd st') \<le> currentFrame (snd st) + int (length es)"
proof (induction es arbitrary: st)
  case Nil
  then show ?case by simp
next
  case (Cons e es)
  then obtain st1 where s: "step cn fss e st = Inr st1" and r: "run cn fss es st1 = Inr st'"
    by (auto split: sum.splits)
  have "currentFrame (snd st1) \<le> currentFrame (snd st) + 1"
  proof (cases e)
    case (AudioFrame i n a k d)
    with s have "Frame cn i n a k d fss (fst st, snd st) = Inr (fst st1, snd st1)" by simp
    from Frame_currentFrame [OF this] show ?thesis by (simp split: if_splits)
  next
    case (ClientDisconnected i)
    with s have "DisconnectClient cn i (fst st, snd st) = Inr (fst st1, snd st1)" by simp
    from DisconnectClient_currentFrame [OF this] show ?thesis by simp
  qed
  with Cons.IH [OF r] show ?case by simp
qed

lemma next_affix_affix_of: "next_affix (affix_of m) = affix_of (Suc m)"
  by (simp add: next_affix_def affix_of_def toInt_number number_1 add.commute)

lemma free_affix_from:
  "\<exists>m\<ge>j. free_affix dk d f (affix_of j) = affix_of m
     \<and> (\<forall>i. j \<le> i \<and> i < m \<longrightarrow> path_exists dk (absoluteFilePath d (f @ affix_of i @ ''.wav'')))"
proof (induction dk d f "affix_of j" arbitrary: j rule: free_affix.induct)
  case (1 dk d f)
  show ?case
  proof (cases "path_exists dk (absoluteFilePath d (f @ affix_of j @ ''.wav''))")
    case True
    from 1 [OF True next_affix_affix_of]
    obtain m where m: "Suc j \<le> m" "free_affix dk d f (affix_of (Suc j)) = affix_of m"
      "\<forall>i. Suc j \<le> i \<and> i < m \<longrightarrow> path_exists dk (absoluteFilePath d (f @ affix_of i @ ''.wav''))"
      by blast
    have e: "free_affix dk d f (affix_of j) = affix_of m"
      using True m(2) by (simp add: free_affix.simps [of dk d f "affix_of j"] next_affix_affix_of)
    have "\<forall>i. j \<le> i \<and> i < m \<longrightarrow> path_exists dk (absoluteFilePath d (f @ affix_of i @ ''.wav''))"
    proof (intro allI impI)
      fix i assume "j \<le> i \<and> i < m"
      then have "i = j \<or> (Suc j \<le> i \<and> i < m)" by arith
      with True m(3) show "path_exists dk (absoluteFilePath d (f @ affix_of i @ ''.wav''))"
        by blast
    qed
    with e m(1) show ?thesis by (intro exI [of _ m]) simp
  next
    case False
    then have "free_affix dk d f (affix_of j) = affix_of j"
      by (simp add: free_affix.simps [of dk d f "affix_of j"])
    then show ?thesis by (intro exI [of _ j]) auto
  qed
qed

lemma feed_frame_disk:
  assumes "valid_chid s i" and "slot s i = Some c"
    and "uint (numChannels c) * fss \<le> int (length d)"
  shows "\<exists>s'. feed_frame i n d fss (dk, s)
           = Inr (dk \<lparr> files := update_file (filename c)
                                   (append_samples (take (nat (uint (numChannels c) * fss)) d))
                                   (files dk) \<rparr>, s')"
  using assms by (auto simp: feed_frame_def CJamClient_Frame_def Let_def)

lemma map_of_update_file_new:
  "p \<notin> fst ` set fs \<Longrightarrow> map_of (update_file p f (fs @ [(p, x)])) p = Some (f x)"
  by (induction fs) auto

lemma map_of_update_file_other:
  "q \<noteq> p \<Longrightarrow> map_of (update_file p f fs) q = map_of fs q"
  by (induction fs) auto

section \<open>The claims about the session state machine\<close>

text \<open>
  C2. The claim: for a channel id whose slot holds no active recording,
  \<open>DisconnectClient\<close> is a no-op apart from a warning and does not fault. The code
  has no test of the slot: \<open>vecptrJamClients[iChID]->Disconnect()\<close> is its first
  statement, so on an empty slot it dereferences a null pointer. Evaluated on the first
  channel of a session that has just been constructed:
\<close>

theorem DisconnectClient_empty_slot_faults:
  "DisconnectClient ClientName 0 (dk, CJamSession_init (Suc n) dir) = Inl NullPointer"
  by (simp add: DisconnectClient_def CJamSession_init_def valid_chid_def slot_def)






text \<open>
  C5. A frame for the valid channel \<open>c\<close> that changes the identity of the active
  recording \<open>r\<close> (channel count, host or port) with a channel count that is not 0 finalises
  \<open>r\<close>, opens a new recording and feeds it the frame: the disk after the call is the disk
  the constructor left with the samples of the frame appended to the new file, which then
  holds exactly these samples, every other file being as \<open>Disconnect\<close> left it, and the
  frame count of the new recording is 1. The marker is left set to \<open>c\<close>: the frame for
  \<open>c\<close> that comes next is dropped, whatever it holds; the disk and the new recording
  are as they were, the frame count still 1.
\<close>

theorem frame_after_identity_change_dropped:
  assumes v: "valid_chid s c" and a: "slot s c = Some r" and m: "chIdDisconnected s \<noteq> c"
    and ch: "numAudioChannels \<noteq> uint (numChannels r)
             \<or> InetAddr address' \<noteq> InetAddr (address r)
             \<or> iPort address' \<noteq> iPort (address r)"
    and nz: "numAudioChannels \<noteq> 0"
    and n: "new_CJamClient ClientName (currentFrame s) numAudioChannels name' address'
              (sessionDir s) (CJamClient_Disconnect r dk) = Inr (dk2, r2)"
    and l: "uint (word_of_int numAudioChannels :: 16 word) * fss \<le> int (length data)"
  shows "\<exists>dk3 s3.
           Frame ClientName c name' address' numAudioChannels data fss (dk, s) = Inr (dk3, s3)
         \<and> dk3 = dk2 \<lparr> files :=
                          update_file (filename r2)
                            (append_samples
                               (take (nat (uint (word_of_int numAudioChannels :: 16 word) * fss))
                                  data))
                            (files dk2) \<rparr>
         \<and> map_of (files dk3) (filename r2)
             = Some (WaveFile (word_of_int numAudioChannels)
                       (take (nat (uint (word_of_int numAudioChannels :: 16 word) * fss)) data)
                       False)
         \<and> (\<forall>q. q \<noteq> filename r2 \<longrightarrow>
                 map_of (files dk3) q = map_of (files (CJamClient_Disconnect r dk)) q)
         \<and> slot s3 c = Some (r2 \<lparr> name := name', frameCount := 1 \<rparr>)
         \<and> jamClientConnections s3 = jamClientConnections s @ [connection_of ClientName r]
         \<and> chIdDisconnected s3 = c
         \<and> (\<forall>name'' address'' numAudioChannels'' data'' fss''.
               Frame ClientName c name'' address'' numAudioChannels'' data'' fss'' (dk3, s3)
                 = Inr (dk3, s3 \<lparr> chIdDisconnected := - 1 \<rparr>)
               \<and> slot (s3 \<lparr> chIdDisconnected := - 1 \<rparr>) c
                   = Some (r2 \<lparr> name := name', frameCount := 1 \<rparr>))"
proof -
  let ?dk1 = "CJamClient_Disconnect r dk"
  let ?s1 = "disconnected ClientName c r s"
  let ?s2 = "set_slot c (Some r2) ?s1"
  let ?w = "word_of_int numAudioChannels :: 16 word"
  let ?xs = "take (nat (uint ?w * fss)) data"
  let ?dk3 = "dk2 \<lparr> files := update_file (filename r2) (append_samples ?xs) (files dk2) \<rparr>"
  have o: "open_recording ClientName c name' address' numAudioChannels (?dk1, ?s1)
             = Inr (dk2, ?s2)"
    using n by (simp add: open_recording_def)
  have c: "numChannels r2 = ?w" "frameCount r2 = 0"
    using new_CJamClient_Inr [OF n] by simp_all
  have fresh: "\<not> path_exists ?dk1 (filename r2)"
    and d2: "dk2 = ?dk1 \<lparr> files := files ?dk1 @ [(filename r2, WaveFile ?w [] False)] \<rparr>"
    using new_CJamClient_Inr [OF n] by simp_all
  have vs: "valid_chid ?s2 c" "slot ?s2 c = Some r2"
    using v by (simp_all add: slot_set_slot_same)
  from feed_frame_fresh [OF vs, of fss data name' dk2] l c
  obtain dk3 s3 where f: "feed_frame c name' data fss (dk2, ?s2) = Inr (dk3, s3)"
    and r: "slot s3 c = Some (r2 \<lparr> name := name', frameCount := 1 \<rparr>)"
      "jamClientConnections s3 = jamClientConnections ?s2"
      "chIdDisconnected s3 = chIdDisconnected ?s2"
    by auto
  from feed_frame_disk [OF vs, of fss data name' dk2] l c f
  have dk3: "dk3 = ?dk3" by auto
  have F: "Frame ClientName c name' address' numAudioChannels data fss (dk, s) = Inr (dk3, s3)"
    using Frame_identity_change [OF v a m ch] nz o f by simp
  have nk: "filename r2 \<notin> fst ` set (files ?dk1)"
    using fresh by (simp add: path_exists_def)
  have fl: "files dk2 = files ?dk1 @ [(filename r2, WaveFile ?w [] False)]"
    by (subst d2) simp
  have holds: "map_of (files dk3) (filename r2) = Some (WaveFile ?w ?xs False)"
    using map_of_update_file_new [OF nk, of "append_samples ?xs" "WaveFile ?w [] False"]
    by (simp add: dk3 fl append_samples_def)
  have others: "\<forall>q. q \<noteq> filename r2 \<longrightarrow> map_of (files dk3) q = map_of (files ?dk1) q"
    by (auto simp: dk3 fl map_of_update_file_other map_add_def split: option.splits)
  have mk: "chIdDisconnected s3 = c" using r by simp
  have "\<forall>name'' address'' numAudioChannels'' data'' fss''.
          Frame ClientName c name'' address'' numAudioChannels'' data'' fss'' (dk3, s3)
            = Inr (dk3, s3 \<lparr> chIdDisconnected := - 1 \<rparr>)"
    using Frame_marker [OF mk] by blast
  with F r mk dk3 holds others show ?thesis by simp
qed

theorem frame_after_identity_change_dropped_witness:
  "valid_chid example_session 0 \<and> slot example_session 0 = Some example_recording
   \<and> chIdDisconnected example_session \<noteq> 0
   \<and> (\<exists>dk3 s3.
         Frame name 0 ''Alice'' example_address 1 [5, 6] 2 (example_disk, example_session)
           = Inr (dk3, s3)
       \<and> files dk3 = [(''/rec/Jam-1/Alice-0-2.wav'', WaveFile 2 [1, 2, 3, 4] True),
                      (''/rec/Jam-1/Alice-1-1.wav'', WaveFile 1 [5, 6] False)]
       \<and> chIdDisconnected s3 = 0
       \<and> slot s3 0 =
           Some \<lparr> startFrame = 1, numChannels = 1, name = ''Alice'', address = example_address,
                  filename = ''/rec/Jam-1/Alice-1-1.wav'', frameCount = 1 \<rparr>
       \<and> Frame name 0 ''Alice'' example_address 1 [7, 8] 2 (dk3, s3)
           = Inr (dk3, s3 \<lparr> chIdDisconnected := - 1 \<rparr>))"
proof -
  let ?dk1 = "CJamClient_Disconnect example_recording example_disk"
  let ?r2 = "\<lparr> startFrame = 1, numChannels = 1, name = ''Alice'', address = example_address,
               filename = ''/rec/Jam-1/Alice-1-1.wav'', frameCount = 0 \<rparr>"
  let ?dk2 = "?dk1 \<lparr> files := files ?dk1 @ [(''/rec/Jam-1/Alice-1-1.wav'', WaveFile 1 [] False)] \<rparr>"
  have h1: "valid_chid example_session 0" by (simp add: valid_chid_def example_session_def)
  have h2: "slot example_session 0 = Some example_recording"
    by (simp add: slot_def example_session_def)
  have h3: "chIdDisconnected example_session \<noteq> 0" by (simp add: example_session_def)
  have h4: "1 \<noteq> uint (numChannels example_recording)
            \<or> InetAddr example_address \<noteq> InetAddr (address example_recording)
            \<or> iPort example_address \<noteq> iPort (address example_recording)"
    by (simp add: example_recording_def)
  have h5: "(1 :: int) \<noteq> 0" by simp
  have h6: "new_CJamClient name (currentFrame example_session) 1 ''Alice'' example_address
              (sessionDir example_session) ?dk1 = Inr (?dk2, ?r2)"
    by (simp add: eval_defs example_defs number_1)
  have h7: "uint (word_of_int 1 :: 16 word) * 2 \<le> int (length [5, 6 :: 16 word])" by simp
  have fs: "files (?dk2 \<lparr> files := update_file ''/rec/Jam-1/Alice-1-1.wav''
                                     (append_samples (take (nat (uint (word_of_int 1 :: 16 word) * 2))
                                        [5, 6]))
                                     (files ?dk2) \<rparr>)
            = [(''/rec/Jam-1/Alice-0-2.wav'', WaveFile 2 [1, 2, 3, 4] True),
               (''/rec/Jam-1/Alice-1-1.wav'', WaveFile 1 [5, 6] False)]"
    by (simp add: CJamClient_Disconnect_def example_defs finalise_def append_samples_def)
  from frame_after_identity_change_dropped [OF h1 h2 h3 h4 h5 h6 h7]
  obtain dk3 s3 where
    A: "Frame name 0 ''Alice'' example_address 1 [5, 6] 2 (example_disk, example_session)
          = Inr (dk3, s3)"
    and B: "dk3 = ?dk2 \<lparr> files := update_file (filename ?r2)
                                     (append_samples (take (nat (uint (word_of_int 1 :: 16 word) * 2))
                                        [5, 6]))
                                     (files ?dk2) \<rparr>"
    and C: "slot s3 0 = Some (?r2 \<lparr> name := ''Alice'', frameCount := 1 \<rparr>)"
      "chIdDisconnected s3 = 0"
    and D: "\<forall>name'' address'' numAudioChannels'' data'' fss''.
               Frame name 0 name'' address'' numAudioChannels'' data'' fss'' (dk3, s3)
                 = Inr (dk3, s3 \<lparr> chIdDisconnected := - 1 \<rparr>)
               \<and> slot (s3 \<lparr> chIdDisconnected := - 1 \<rparr>) 0
                   = Some (?r2 \<lparr> name := ''Alice'', frameCount := 1 \<rparr>)"
    by blast
  have E: "files dk3 = [(''/rec/Jam-1/Alice-0-2.wav'', WaveFile 2 [1, 2, 3, 4] True),
                        (''/rec/Jam-1/Alice-1-1.wav'', WaveFile 1 [5, 6] False)]"
    using fs by (simp add: B)
  from D have D': "Frame name 0 ''Alice'' example_address 1 [7, 8] 2 (dk3, s3)
                     = Inr (dk3, s3 \<lparr> chIdDisconnected := - 1 \<rparr>)" by blast
  from A C D' E h1 h2 h3 show ?thesis by (intro conjI exI [of _ dk3] exI [of _ s3]) simp_all
qed

text \<open>
  C6. The frame counter of the session never decreases over a run of frame and disconnect
  events; \<open>DisconnectClient\<close> leaves it as it is; one call of \<open>Frame\<close> adds at most 1,
  and adds 1 exactly when the frame was fed to a recording whose start frame plus frame
  count then exceeds the counter. (An event with a channel id that is not valid faults and
  ends the run.) The counters are unbounded integers in the model; a run of \<open>n\<close> events
  adds at most \<open>n\<close> to the counter (\<open>run_currentFrame_bound\<close>), far from the 64 bits of
  the C++ type.
\<close>

theorem frame_counter_monotone:
  "(run ClientName fss es st = Inr st' \<longrightarrow> currentFrame (snd st) \<le> currentFrame (snd st'))
   \<and> (DisconnectClient ClientName i (dk, s) = Inr (dkD, sD) \<longrightarrow> currentFrame sD = currentFrame s)
   \<and> (Frame ClientName i n a k d fss (dk, s) = Inr (dkF, sF) \<longrightarrow>
        currentFrame s \<le> currentFrame sF \<and> currentFrame sF \<le> currentFrame s + 1
        \<and> (currentFrame sF = currentFrame s + 1 \<longleftrightarrow>
             i \<noteq> chIdDisconnected s
             \<and> (\<exists>c'. slot sF i = Some c'
                      \<and> startFrame c' + frameCount c' > currentFrame s)))"
proof (intro conjI impI)
  assume "run ClientName fss es st = Inr st'"
  then show "currentFrame (snd st) \<le> currentFrame (snd st')" by (rule run_currentFrame)
next
  assume "DisconnectClient ClientName i (dk, s) = Inr (dkD, sD)"
  then show "currentFrame sD = currentFrame s" by (rule DisconnectClient_currentFrame)
next
  assume F: "Frame ClientName i n a k d fss (dk, s) = Inr (dkF, sF)"
  from Frame_currentFrame [OF F] show "currentFrame s \<le> currentFrame sF"
    by (simp split: if_splits)
  from Frame_currentFrame [OF F] show "currentFrame sF \<le> currentFrame s + 1"
    by (simp split: if_splits)
  from Frame_currentFrame [OF F]
  show "currentFrame sF = currentFrame s + 1 \<longleftrightarrow>
          i \<noteq> chIdDisconnected s
          \<and> (\<exists>c'. slot sF i = Some c' \<and> startFrame c' + frameCount c' > currentFrame s)"
    by (simp split: if_splits)
qed

theorem frame_counter_monotone_witness:
  "Frame name 0 ''Alice'' example_address 2 [1, 2, 3, 4] 2
     (empty_disk, CJamSession_init 2 ''/rec/Jam-1'') = Inr (example_disk, example_session)
   \<and> currentFrame example_session = currentFrame (CJamSession_init 2 ''/rec/Jam-1'') + 1
   \<and> DisconnectClient name 0 (example_disk, example_session)
       = Inr (CJamClient_Disconnect example_recording example_disk,
              disconnected name 0 example_recording example_session)
   \<and> currentFrame (disconnected name 0 example_recording example_session)
       = currentFrame example_session
   \<and> run name 2 [AudioFrame 0 ''Alice'' example_address 2 [1, 2, 3, 4], ClientDisconnected 0]
         (empty_disk, CJamSession_init 2 ''/rec/Jam-1'')
       = Inr (CJamClient_Disconnect example_recording example_disk,
              disconnected name 0 example_recording example_session)
   \<and> currentFrame (CJamSession_init 2 ''/rec/Jam-1'')
       \<le> currentFrame (disconnected name 0 example_recording example_session)"
proof -
  let ?s0 = "CJamSession_init 2 ''/rec/Jam-1''"
  let ?dk1 = "CJamClient_Disconnect example_recording example_disk"
  let ?s1 = "disconnected name 0 example_recording example_session"
  have hF: "Frame name 0 ''Alice'' example_address 2 [1, 2, 3, 4] 2 (empty_disk, ?s0)
              = Inr (example_disk, example_session)"
    by (rule example_reached)
  have hD: "DisconnectClient name 0 (example_disk, example_session) = Inr (?dk1, ?s1)"
    by (rule DisconnectClient_active)
      (simp_all add: valid_chid_def slot_def example_session_def)
  have hR: "run name 2 [AudioFrame 0 ''Alice'' example_address 2 [1, 2, 3, 4],
                        ClientDisconnected 0] (empty_disk, ?s0) = Inr (?dk1, ?s1)"
    by (simp add: hF hD)
  have c: "slot example_session 0 = Some example_recording"
    "startFrame example_recording + frameCount example_recording > currentFrame ?s0"
    "0 \<noteq> chIdDisconnected ?s0"
    by (simp_all add: slot_def example_session_def example_recording_def CJamSession_init_def)
  note T = frame_counter_monotone [where ClientName = name and fss = 2
      and es = "[AudioFrame 0 ''Alice'' example_address 2 [1, 2, 3, 4], ClientDisconnected 0]"
      and st = "(empty_disk, ?s0)" and st' = "(?dk1, ?s1)"
      and i = 0 and dk = example_disk and s = example_session and dkD = ?dk1 and sD = ?s1]
  note U = frame_counter_monotone [where ClientName = name and fss = 2
      and i = 0 and n = "''Alice''" and a = example_address and k = 2 and d = "[1, 2, 3, 4]"
      and dk = empty_disk and s = ?s0 and dkF = example_disk and sF = example_session]
  from T hR hD have "currentFrame ?s0 \<le> currentFrame ?s1"
    "currentFrame ?s1 = currentFrame example_session" by simp_all
  moreover from U hF c have "currentFrame example_session = currentFrame ?s0 + 1" by blast
  ultimately show ?thesis using hF hD hR by simp
qed

section \<open>The claim about the file names\<close>

text \<open>
  C8. When the constructor of a recording returns, its file has the name
  \<open>base @ affix @ ".wav"\<close> for the first of the affixes "", \<open>_1\<close>, \<open>_2\<close>, ... whose name was
  not taken in the session directory: every earlier one exists, and when only the name
  without affix was taken the file gets \<open>_1\<close>. The file did not exist before, the files that
  did are all still there with what they held, and when the paths on the disk were
  pairwise distinct they still are. (The loop that looks for the name ends on every
  disk: \<open>free_affix\<close> is a total function.)
\<close>

theorem file_names_stay_unique:
  assumes n: "new_CJamClient ClientName frame numChannels' name' address' baseDir dk
                = Inr (dk', c)"
  shows "\<exists>m. filename c
              = absoluteFilePath baseDir
                  (base_fileName ClientName frame numChannels' name' address' @ affix_of m @ ''.wav'')
         \<and> (\<forall>i<m. path_exists dk
                     (absoluteFilePath baseDir
                        (base_fileName ClientName frame numChannels' name' address'
                         @ affix_of i @ ''.wav'')))
         \<and> (path_exists dk
               (absoluteFilePath baseDir
                  (base_fileName ClientName frame numChannels' name' address' @ ''.wav''))
             \<and> \<not> path_exists dk
                   (absoluteFilePath baseDir
                      (base_fileName ClientName frame numChannels' name' address' @ ''_1.wav''))
             \<longrightarrow> m = 1)
         \<and> \<not> path_exists dk (filename c)
         \<and> files dk' = files dk @ [(filename c, WaveFile (word_of_int numChannels') [] False)]
         \<and> dirs dk' = dirs dk
         \<and> (distinct (map fst (files dk)) \<longrightarrow> distinct (map fst (files dk')))"
proof -
  let ?b = "base_fileName ClientName frame numChannels' name' address'"
  let ?P = "\<lambda>a. path_exists dk (absoluteFilePath baseDir (?b @ a @ ''.wav''))"
  from free_affix_from [of 0 dk baseDir ?b]
  obtain m where m: "free_affix dk baseDir ?b [] = affix_of m" "\<forall>i<m. ?P (affix_of i)"
    by (auto simp: affix_of_def)
  have f: "filename c = absoluteFilePath baseDir (?b @ affix_of m @ ''.wav'')"
    using n m(1)
    by (auto simp: new_CJamClient_def base_fileName_def initial_frameCount_def Let_def
          split: if_splits)
  have ne: "\<not> path_exists dk (filename c)" using new_CJamClient_Inr(6) [OF n] .
  have d: "dk' = dk \<lparr> files := files dk @ [(filename c, WaveFile (word_of_int numChannels') [] False)] \<rparr>"
    using new_CJamClient_Inr(7) [OF n] .
  have one: "?P [] \<and> \<not> ?P ''_1'' \<longrightarrow> m = 1"
  proof
    assume h: "?P [] \<and> \<not> ?P ''_1''"
    have a0: "affix_of 0 = []" and a1: "affix_of 1 = ''_1''"
      by (simp_all add: affix_of_def number_1)
    from h ne f a0 have "m \<noteq> 0" by (cases "m = 0") auto
    moreover have "\<not> 1 < m"
    proof
      assume "1 < m"
      with m(2) have "?P (affix_of 1)" by blast
      with h a1 show False by simp
    qed
    ultimately show "m = 1" by arith
  qed
  have "distinct (map fst (files dk)) \<longrightarrow> distinct (map fst (files dk'))"
    using ne by (subst d) (auto simp: path_exists_def)
  moreover have "files dk' = files dk @ [(filename c, WaveFile (word_of_int numChannels') [] False)]"
    "dirs dk' = dirs dk"
    by (subst d, simp)+
  ultimately show ?thesis using f m(2) ne one by (intro exI [of _ m]) simp
qed

theorem file_names_stay_unique_witness:
  "new_CJamClient name 0 2 ''Alice'' example_address ''/rec/Jam-1'' example_disk
     = Inr (example_disk \<lparr> files := files example_disk
                                    @ [(''/rec/Jam-1/Alice-0-2_1.wav'', WaveFile 2 [] False)] \<rparr>,
            \<lparr> startFrame = 0, numChannels = 2, name = ''Alice'', address = example_address,
              filename = ''/rec/Jam-1/Alice-0-2_1.wav'', frameCount = 0 \<rparr>)
   \<and> \<not> path_exists example_disk ''/rec/Jam-1/Alice-0-2_1.wav''
   \<and> distinct (map fst (files example_disk))
   \<and> distinct (map fst (files example_disk
                          @ [(''/rec/Jam-1/Alice-0-2_1.wav'', WaveFile 2 [] False)]))"
proof -
  have h: "new_CJamClient name 0 2 ''Alice'' example_address ''/rec/Jam-1'' example_disk
     = Inr (example_disk \<lparr> files := files example_disk
                                    @ [(''/rec/Jam-1/Alice-0-2_1.wav'', WaveFile 2 [] False)] \<rparr>,
            \<lparr> startFrame = 0, numChannels = 2, name = ''Alice'', address = example_address,
              filename = ''/rec/Jam-1/Alice-0-2_1.wav'', frameCount = 0 \<rparr>)"
    by (simp add: eval_defs example_defs number_0 number_1 number_2 next_affix_def toInt_1)
  have g: "distinct (map fst (files example_disk))" by (simp add: example_disk_def)
  from file_names_stay_unique [OF h] g h show ?thesis by auto
qed

section \<open>The claims about the tracks read from a session directory\<close>

lemmas track_defs = TracksFromSessionDir_def entryList_pcm_def entry_name_def
  List.map_filter_def ends_with_def lower_char_def track_of_entry_def file_size_def toInt_def
  toLongLong_def parse_unsigned_def digit_val_def tdiv_def Tracks_def track_of_connection_def
  End_def

text \<open>
  C1. The claim: \<open>Tracks()\<close> and \<open>TracksFromSessionDir\<close> give equivalent track maps for
  the files a finalised session wrote. The session writes files named \<open>*.wav\<close>, and
  \<open>TracksFromSessionDir\<close> lists the entries \<open>*.pcm\<close> only. For the session of one client
  and one frame, ended by \<open>End()\<close>, \<open>Tracks()\<close> has the track of the client and the map
  read from the directory is empty, whatever the size of the WAV header:
\<close>

theorem offline_tracks_miss_the_session_files:
  "map_sum id (\<lambda>(dk, s). (Tracks s, TracksFromSessionDir waveHeaderSize dk (sessionDir s) 2))
     (case Frame name 0 ''Alice'' example_address 2 [1, 2, 3, 4] 2
             (empty_disk, CJamSession_init 2 ''/rec/Jam-1'') of
        Inl e \<Rightarrow> Inl e
      | Inr st \<Rightarrow> End name st)
   = Inr ([(''Alice'', [\<lparr> item_numAudioChannels = 2, item_startFrame = 0, item_length = 1,
                           item_fileName = ''/rec/Jam-1/Alice-0-2.wav'' \<rparr>])],
          Inr [])"
  by (simp add: example_reached)
     (simp add: eval_defs track_defs example_defs)

text \<open>The same with the 44 bytes of the usual WAV header.\<close>

theorem offline_tracks_miss_the_session_files_witness:
  "map_sum id (\<lambda>(dk, s). (Tracks s, TracksFromSessionDir 44 dk (sessionDir s) 2))
     (case Frame name 0 ''Alice'' example_address 2 [1, 2, 3, 4] 2
             (empty_disk, CJamSession_init 2 ''/rec/Jam-1'') of
        Inl e \<Rightarrow> Inl e
      | Inr st \<Rightarrow> End name st)
   = Inr ([(''Alice'', [\<lparr> item_numAudioChannels = 2, item_startFrame = 0, item_length = 1,
                           item_fileName = ''/rec/Jam-1/Alice-0-2.wav'' \<rparr>])],
          Inr [])"
  by (rule offline_tracks_miss_the_session_files)

text \<open>
  C7. The claim: the length of a segment read from the directory is the size of the file
  divided by \<open>channelCount * frameSizeSamples * sampleWidth\<close>, with \<open>sampleWidth\<close> the two
  bytes of a sample. The code divides by the channel count and by the frame size only.
  For a file of 1536 bytes, 2 channels and frames of 128 samples, that is 3 frames of
  2 * 128 samples of 2 bytes, the code gives the length 6:
\<close>

theorem offline_length_without_sample_width:
  "TracksFromSessionDir waveHeaderSize pcm_disk ''/rec/Jam-1'' 128
     = Inr [(''Alice-10_0_0_1_22124'',
             [\<lparr> item_numAudioChannels = 2, item_startFrame = 0, item_length = 6,
                item_fileName = ''/rec/Jam-1/Alice-10_0_0_1_22124-0-2.pcm'' \<rparr>])]
   \<and> file_size waveHeaderSize (RawFile 1536) div (2 * 128 * 2) = 3"
  by (simp add: track_defs example_defs Let_def absoluteFilePath_def)

section \<open>The claims about the exporters\<close>

lemma map_of_write_file_other: "p \<noteq> q \<Longrightarrow> map_of (write_file p x fs) q = map_of fs q"
  by (induction fs) auto

lemma keys_write_file: "q \<in> fst ` set (write_file p x fs) \<longleftrightarrow> q = p \<or> q \<in> fst ` set fs"
proof (induction fs)
  case Nil
  show ?case by simp
next
  case (Cons a fs)
  obtain k v where a: "a = (k, v)" by (cases a)
  show ?case
  proof (cases "k = p")
    case True
    with a show ?thesis by auto
  next
    case False
    with a Cons show ?thesis by auto
  qed
qed

lemma map_of_write_file_same: "map_of (write_file p x fs) p = Some x"
  by (induction fs) auto

lemma path_exists_write_file:
  "path_exists (dk \<lparr> files := write_file p x (files dk) \<rparr>) q = (q = p \<or> path_exists dk q)"
  by (simp add: path_exists_def keys_write_file)

lemma rpp_neq_lof: "reaperProjectFileName s \<noteq> audacityLofFileName s"
  by (simp add: reaperProjectFileName_def audacityLofFileName_def absoluteFilePath_def)

text \<open>
  C9. For a recorder with a current session: an exporter whose target file exists leaves
  the disk as it is and logs a warning. In the two calls of \<open>OnEnd\<close>, when the target of
  one format exists and the other can be written, the other is written, the warning is
  logged, and the file that existed holds what it held; when both exist, both warn and
  the disk is as it was.
\<close>

theorem existing_export_target_kept:
  assumes cs: "currentSession r = Some s"
  shows "(path_exists dk (reaperProjectFileName s) \<longrightarrow>
            (\<exists>msg. ReaperProjectFromCurrentSession toString r (dk, lg)
                      = Inr (dk, lg @ [qWarning msg])))
       \<and> (path_exists dk (audacityLofFileName s) \<longrightarrow>
            (\<exists>msg. AudacityLofFromCurrentSession offsetText r (dk, lg)
                      = Inr (dk, lg @ [qWarning msg])))
       \<and> (path_exists dk (reaperProjectFileName s) \<and> \<not> path_exists dk (audacityLofFileName s)
           \<and> can_open dk (audacityLofFileName s) \<longrightarrow>
            (\<exists>msg dbg dk'.
               exporters toString offsetText r (dk, lg) = Inr (dk', lg @ [qWarning msg, qDebug dbg])
             \<and> map_of (files dk') (reaperProjectFileName s)
                 = map_of (files dk) (reaperProjectFileName s)
             \<and> map_of (files dk') (audacityLofFileName s)
                 = Some (TextFile (lof_text offsetText (iServerFrameSizeSamples r) (Tracks s)))))
       \<and> (\<not> path_exists dk (reaperProjectFileName s) \<and> can_open dk (reaperProjectFileName s)
           \<and> path_exists dk (audacityLofFileName s) \<longrightarrow>
            (\<exists>dbg msg dk'.
               exporters toString offsetText r (dk, lg) = Inr (dk', lg @ [qDebug dbg, qWarning msg])
             \<and> map_of (files dk') (audacityLofFileName s)
                 = map_of (files dk) (audacityLofFileName s)
             \<and> map_of (files dk') (reaperProjectFileName s)
                 = Some (TextFile (toString (Tracks s) (iServerFrameSizeSamples r) @ endl))))
       \<and> (path_exists dk (reaperProjectFileName s) \<and> path_exists dk (audacityLofFileName s) \<longrightarrow>
            (\<exists>msg msg'.
               exporters toString offsetText r (dk, lg)
                 = Inr (dk, lg @ [qWarning msg, qWarning msg'])))"
proof -
  note defs = ReaperProjectFromCurrentSession_def AudacityLofFromCurrentSession_def
    exporters_def path_exists_write_file map_of_write_file_other map_of_write_file_same
  have n: "reaperProjectFileName s \<noteq> audacityLofFileName s"
    "audacityLofFileName s \<noteq> reaperProjectFileName s"
    using rpp_neq_lof [of s] by simp_all
  show ?thesis using cs n by (simp add: defs)
qed


theorem existing_export_target_kept_witness:
  "currentSession example_recorder
     = Some (disconnected name 0 example_recording example_session)
   \<and> path_exists exported_disk
         (reaperProjectFileName (disconnected name 0 example_recording example_session))
   \<and> \<not> path_exists exported_disk
           (audacityLofFileName (disconnected name 0 example_recording example_session))
   \<and> (\<exists>msg. ReaperProjectFromCurrentSession (\<lambda>t n. ''project'') example_recorder
                 (exported_disk, []) = Inr (exported_disk, [qWarning msg]))
   \<and> (\<exists>msg dbg dk'.
         exporters (\<lambda>t n. ''project'') (\<lambda>f n. ''0'') example_recorder (exported_disk, [])
           = Inr (dk', [qWarning msg, qDebug dbg])
       \<and> map_of (files dk') ''/rec/Jam-1/Jam-1.rpp'' = Some (TextFile ''first export''))"
proof -
  let ?s = "disconnected name 0 example_recording example_session"
  have h: "currentSession example_recorder = Some ?s" by (simp add: example_recorder_def)
  have p: "reaperProjectFileName ?s = ''/rec/Jam-1/Jam-1.rpp''"
    "audacityLofFileName ?s = ''/rec/Jam-1/Jam-1.lof''"
    by (simp_all add: reaperProjectFileName_def audacityLofFileName_def Name_def dirName_def
          absoluteFilePath_def example_session_def)
  have e: "path_exists exported_disk (reaperProjectFileName ?s)"
    "\<not> path_exists exported_disk (audacityLofFileName ?s)"
    "can_open exported_disk (audacityLofFileName ?s)"
    "map_of (files exported_disk) ''/rec/Jam-1/Jam-1.rpp'' = Some (TextFile ''first export'')"
    by (simp_all add: p path_exists_def exported_disk_def)
  note T = existing_export_target_kept [OF h, where dk = exported_disk and lg = "[]"
      and toString = "\<lambda>t n. ''project''" and offsetText = "\<lambda>f n. ''0''"]
  from T e(1) have A: "\<exists>msg. ReaperProjectFromCurrentSession (\<lambda>t n. ''project'') example_recorder
                 (exported_disk, []) = Inr (exported_disk, [qWarning msg])"
    by simp
  from T e have B: "\<exists>msg dbg dk'.
         exporters (\<lambda>t n. ''project'') (\<lambda>f n. ''0'') example_recorder (exported_disk, [])
           = Inr (dk', [qWarning msg, qDebug dbg])
       \<and> map_of (files dk') ''/rec/Jam-1/Jam-1.rpp'' = Some (TextFile ''first export'')"
    by (simp add: p) blast
  from h e(1,2) A B show ?thesis by blast
qed

text \<open>
  C10. \<open>SessionDirToReaper\<close> throws, with the disk as it was (no file created or
  written), when the directory does not exist or is not a directory, and when the
  project file already exists.
\<close>

theorem SessionDirToReaper_hard_errors:
  "(\<not> path_exists dk strSessionDirName \<or> \<not> isDir dk strSessionDirName \<longrightarrow>
      SessionDirToReaper toString waveHeaderSize strSessionDirName fss dk
        = (dk, Some (NotADirectory strSessionDirName)))
   \<and> (path_exists dk strSessionDirName \<and> isDir dk strSessionDirName
       \<and> path_exists dk
           (absoluteFilePath strSessionDirName (baseName strSessionDirName @ ''.rpp'')) \<longrightarrow>
      SessionDirToReaper toString waveHeaderSize strSessionDirName fss dk
        = (dk, Some (WillNotOverwrite
                       (absoluteFilePath strSessionDirName
                          (baseName strSessionDirName @ ''.rpp'')))))"
  by (simp add: SessionDirToReaper_def Let_def)

theorem SessionDirToReaper_hard_errors_witness:
  "\<not> path_exists exported_disk ''/rec/Jam-2''
   \<and> SessionDirToReaper (\<lambda>t n. ''project'') 44 ''/rec/Jam-2'' 2 exported_disk
       = (exported_disk, Some (NotADirectory ''/rec/Jam-2''))
   \<and> \<not> isDir exported_disk ''/rec/Jam-1/Alice-0-2.wav''
   \<and> SessionDirToReaper (\<lambda>t n. ''project'') 44 ''/rec/Jam-1/Alice-0-2.wav'' 2 exported_disk
       = (exported_disk, Some (NotADirectory ''/rec/Jam-1/Alice-0-2.wav''))
   \<and> path_exists exported_disk ''/rec/Jam-1'' \<and> isDir exported_disk ''/rec/Jam-1''
   \<and> path_exists exported_disk ''/rec/Jam-1/Jam-1.rpp''
   \<and> SessionDirToReaper (\<lambda>t n. ''project'') 44 ''/rec/Jam-1'' 2 exported_disk
       = (exported_disk, Some (WillNotOverwrite ''/rec/Jam-1/Jam-1.rpp''))"
proof -
  have b: "absoluteFilePath ''/rec/Jam-1'' (baseName ''/rec/Jam-1'' @ ''.rpp'')
             = ''/rec/Jam-1/Jam-1.rpp''"
    by (simp add: absoluteFilePath_def baseName_def dirName_def)
  have h1: "\<not> path_exists exported_disk ''/rec/Jam-2''"
    and h2: "\<not> isDir exported_disk ''/rec/Jam-1/Alice-0-2.wav''"
    and h3: "path_exists exported_disk ''/rec/Jam-1''" "isDir exported_disk ''/rec/Jam-1''"
      "path_exists exported_disk ''/rec/Jam-1/Jam-1.rpp''"
    by (simp_all add: path_exists_def isDir_def exported_disk_def)
  note T = SessionDirToReaper_hard_errors [where dk = exported_disk
      and toString = "\<lambda>t n. ''project''" and waveHeaderSize = 44 and fss = 2]
  from T [of "''/rec/Jam-2''"] h1
  have A: "SessionDirToReaper (\<lambda>t n. ''project'') 44 ''/rec/Jam-2'' 2 exported_disk
       = (exported_disk, Some (NotADirectory ''/rec/Jam-2''))" by blast
  from T [of "''/rec/Jam-1/Alice-0-2.wav''"] h2
  have B: "SessionDirToReaper (\<lambda>t n. ''project'') 44 ''/rec/Jam-1/Alice-0-2.wav'' 2 exported_disk
       = (exported_disk, Some (NotADirectory ''/rec/Jam-1/Alice-0-2.wav''))" by blast
  from T [of "''/rec/Jam-1''"] h3 b
  have C: "SessionDirToReaper (\<lambda>t n. ''project'') 44 ''/rec/Jam-1'' 2 exported_disk
       = (exported_disk, Some (WillNotOverwrite ''/rec/Jam-1/Jam-1.rpp''))" by simp
  from A B C h1 h2 h3 show ?thesis by simp
qed


text \<open>
  Those are the errors found before the project file is opened. A fault while the tracks
  are read, here a file name with too few parts, comes after it: the empty project file
  is left behind.
\<close>

lemma SessionDirToReaper_fault_after_open:
  "SessionDirToReaper toString waveHeaderSize ''/rec/Jam-1'' 2
     \<lparr> files = [(''/rec/Jam-1/take.pcm'', RawFile 8)], dirs = [''/rec/Jam-1''],
       can_open = (\<lambda>p. True) \<rparr>
   = (\<lparr> files = [(''/rec/Jam-1/take.pcm'', RawFile 8), (''/rec/Jam-1/Jam-1.rpp'', TextFile [])],
        dirs = [''/rec/Jam-1''], can_open = (\<lambda>p. True) \<rparr>,
      Some IndexOutOfRange)"
  by (simp add: SessionDirToReaper_def track_defs path_exists_def isDir_def baseName_def
        dirName_def absoluteFilePath_def Let_def)

end
